theory Spec2Isabelle
  imports Main "HOL-Library.Word"
begin

section \<open>The token-mint initialisation client (\<^verbatim>\<open>src/index.ts\<close>)\<close>

text \<open>
  The script is a straight line of calls into collaborators that are not part of
  \<^verbatim>\<open>index.ts\<close>: the web3 SDK (\<^verbatim>\<open>PublicKey.findProgramAddress\<close>,
  \<^verbatim>\<open>sendAndConfirmTransaction\<close>, three well-known account identifiers) and the module
  \<^verbatim>\<open>./initializeKeypair\<close>.  They are taken as parameters, gathered in the record
  \<open>env\<close>; everything written in \<^verbatim>\<open>index.ts\<close> itself is modelled below, with the
  console, the calls of the submission collaborator and the exit code as an explicit
  \<open>world\<close> that is passed along.
\<close>

subsection \<open>Data\<close>

text \<open>A \<^verbatim>\<open>Buffer\<close> is a sequence of bytes.\<close>

type_synonym Buffer = "8 word list"

text \<open>\<^verbatim>\<open>Buffer.from(string)\<close>: the bytes of the (ASCII) text.\<close>

definition Buffer_from_string :: "string \<Rightarrow> Buffer" where
  "Buffer_from_string s = map (\<lambda>c. word_of_nat (of_char c)) s"

text \<open>\<^verbatim>\<open>Buffer.from(array)\<close>: every entry is truncated to one byte.\<close>

definition Buffer_from_array :: "int list \<Rightarrow> Buffer" where
  "Buffer_from_array xs = map word_of_int xs"

text \<open>
  A \<^verbatim>\<open>web3.PublicKey\<close>, named by the base-58 text it is constructed from or printed as.
\<close>

datatype PublicKey = PublicKey (toBase58: string)

record Keypair =
  publicKey :: PublicKey
  secretKey :: Buffer

text \<open>\<^verbatim>\<open>new web3.Connection(endpoint)\<close>.\<close>

datatype Connection = Connection string

text \<open>One entry of an instruction's \<^verbatim>\<open>keys\<close>.\<close>

record AccountMeta =
  pubkey :: PublicKey
  isSigner :: bool
  isWritable :: bool

record TransactionInstruction =
  keys :: "AccountMeta list"
  programId :: PublicKey
  data :: Buffer

record Transaction =
  instructions :: "TransactionInstruction list"

text \<open>\<^verbatim>\<open>new web3.Transaction()\<close> has no instruction; \<^verbatim>\<open>tx.add(ix)\<close> appends one.\<close>

definition Transaction_new :: Transaction where
  "Transaction_new = \<lparr>instructions = []\<rparr>"

definition Transaction_add :: "Transaction \<Rightarrow> TransactionInstruction \<Rightarrow> Transaction" where
  "Transaction_add tx ix = tx\<lparr>instructions := instructions tx @ [ix]\<rparr>"

subsection \<open>Promises and thrown values\<close>

text \<open>A thrown JavaScript value, kept as it is thrown.\<close>

datatype error = Error string

text \<open>
  What an awaited call comes to: it returns a value, it throws, or it never settles
  (the script then never reaches its exit).
\<close>

datatype 'a promise = Fulfilled 'a | Rejected error | Pending

subsection \<open>The process: console, submissions, exit code\<close>

text \<open>An argument of \<^verbatim>\<open>console.log\<close>: a string, or the caught error object.\<close>

datatype logged = Str string | Err error

record world =
  stdout :: "logged list"
  submitted :: "(Connection \<times> Transaction \<times> Keypair list) list"
  exit_code :: "int option"

definition world0 :: world where
  "world0 = \<lparr>stdout = [], submitted = [], exit_code = None\<rparr>"

definition console_log :: "logged \<Rightarrow> world \<Rightarrow> world" where
  "console_log x w = w\<lparr>stdout := stdout w @ [x]\<rparr>"

definition process_exit :: "int \<Rightarrow> world \<Rightarrow> world" where
  "process_exit n w = w\<lparr>exit_code := Some n\<rparr>"

subsection \<open>The collaborators\<close>

text \<open>
  \<^item> \<open>findProgramAddress seeds program\<close>: the SDK's address derivation, returning the
    address and its bump, or throwing.  It computes its result from its two arguments
    alone, so it is a function of them.
  \<^item> \<open>sendAndConfirmTransaction connection tx signers\<close>: signs, submits and waits;
    returns the transaction identifier or throws.
  \<^item> \<open>initializeKeypair connection\<close>: the module \<^verbatim>\<open>./initializeKeypair\<close>, which supplies
    the signer or throws; the second component is what it wrote to the console meanwhile.
  \<^item> \<open>SystemProgram_programId\<close>, \<open>TOKEN_PROGRAM_ID\<close>, \<open>SYSVAR_RENT_PUBKEY\<close>: the SDK's
    constants \<^verbatim>\<open>web3.SystemProgram.programId\<close>, \<^verbatim>\<open>splToken.TOKEN_PROGRAM_ID\<close> and
    \<^verbatim>\<open>web3.SYSVAR_RENT_PUBKEY\<close>.
\<close>

record env =
  findProgramAddress :: "Buffer list \<Rightarrow> PublicKey \<Rightarrow> (PublicKey \<times> nat) promise"
  sendAndConfirmTransaction :: "Connection \<Rightarrow> Transaction \<Rightarrow> Keypair list \<Rightarrow> string promise"
  initializeKeypair :: "Connection \<Rightarrow> Keypair promise \<times> logged list"
  SystemProgram_programId :: PublicKey
  TOKEN_PROGRAM_ID :: PublicKey
  SYSVAR_RENT_PUBKEY :: PublicKey

subsection \<open>The script\<close>

definition PROGRAM_ID :: PublicKey where
  "PROGRAM_ID = PublicKey ''4QPCBtQ1qSwTmUy9yrGZoqCjZPen8eCE2HcHtKeNWYj6''"

text \<open>
  \<^verbatim>\<open>initializeProgramTokenMint(connection, signer, programId)\<close>.  The parameter
  \<^verbatim>\<open>programId\<close> is written \<open>programId'\<close>, the unprimed name being the field of an
  instruction.  The two awaited derivations come first; the expression statement of line 23
  does nothing; the transaction receives the one instruction and is handed to
  \<^verbatim>\<open>sendAndConfirmTransaction\<close> with \<^verbatim>\<open>[signer]\<close>, which the world records.
\<close>

definition initializeProgramTokenMint ::
  "env \<Rightarrow> Connection \<Rightarrow> Keypair \<Rightarrow> PublicKey \<Rightarrow> world \<Rightarrow> string promise \<times> world" where
  "initializeProgramTokenMint env connection signer programId' w =
    (case findProgramAddress env [Buffer_from_string ''token_mint''] PROGRAM_ID of
       Rejected e \<Rightarrow> (Rejected e, w)
     | Pending \<Rightarrow> (Pending, w)
     | Fulfilled (tokenMint, bump_mint) \<Rightarrow>
    (case findProgramAddress env [Buffer_from_string ''token_auth''] PROGRAM_ID of
       Rejected e \<Rightarrow> (Rejected e, w)
     | Pending \<Rightarrow> (Pending, w)
     | Fulfilled (tokenAuth, bump_auth) \<Rightarrow>
       (let tx = Transaction_new;
            ix = \<lparr>keys =
                    [\<lparr>pubkey = publicKey signer, isSigner = True, isWritable = False\<rparr>,
                     \<lparr>pubkey = tokenMint, isSigner = False, isWritable = True\<rparr>,
                     \<lparr>pubkey = tokenAuth, isSigner = False, isWritable = False\<rparr>,
                     \<lparr>pubkey = SystemProgram_programId env, isSigner = False, isWritable = False\<rparr>,
                     \<lparr>pubkey = TOKEN_PROGRAM_ID env, isSigner = False, isWritable = False\<rparr>,
                     \<lparr>pubkey = SYSVAR_RENT_PUBKEY env, isSigner = False, isWritable = False\<rparr>],
                  programId = PROGRAM_ID,
                  data = Buffer_from_array [3]\<rparr>;
            tx = Transaction_add tx ix
        in (sendAndConfirmTransaction env connection tx [signer],
            w\<lparr>submitted := submitted w @ [(connection, tx, [signer])]\<rparr>))))"

text \<open>
  \<^verbatim>\<open>main()\<close>: connect, obtain the signer, run the initialisation with the constant
  \<^verbatim>\<open>PROGRAM_ID\<close>, print the explorer line.  A throw at an \<^verbatim>\<open>await\<close> rejects \<^verbatim>\<open>main\<close>
  with the thrown value.
\<close>

definition main :: "env \<Rightarrow> world \<Rightarrow> unit promise \<times> world" where
  "main env w =
    (let connection = Connection ''http://localhost:8899'';
         (p, printed) = initializeKeypair env connection;
         w = w\<lparr>stdout := stdout w @ printed\<rparr>
     in case p of
          Rejected e \<Rightarrow> (Rejected e, w)
        | Pending \<Rightarrow> (Pending, w)
        | Fulfilled signer \<Rightarrow>
            (case initializeProgramTokenMint env connection signer PROGRAM_ID w of
               (Rejected e, w) \<Rightarrow> (Rejected e, w)
             | (Pending, w) \<Rightarrow> (Pending, w)
             | (Fulfilled txid, w) \<Rightarrow>
                 (Fulfilled (),
                  console_log
                    (Str (''Transaction submitted: https://explorer.solana.com/tx/'' @ txid
                          @ ''?cluster=devnet''))
                    w)))"

text \<open>
  The top-level statement \<^verbatim>\<open>main().then(...).catch(...)\<close>, started in the fresh world:
  the world the process ends in.
\<close>

definition script :: "env \<Rightarrow> world" where
  "script env =
    (case main env world0 of
       (Fulfilled u, w) \<Rightarrow> process_exit 0 (console_log (Str ''Finished successfully'') w)
     | (Rejected error, w) \<Rightarrow> process_exit 1 (console_log (Err error) w)
     | (Pending, w) \<Rightarrow> w)"

subsection \<open>Observing a call\<close>

text \<open>
  The instructions of the transactions that a call of \<open>initializeProgramTokenMint\<close>
  hands to the submission collaborator.
\<close>

definition produced :: "env \<Rightarrow> Connection \<Rightarrow> Keypair \<Rightarrow> PublicKey \<Rightarrow> TransactionInstruction list" where
  "produced env connection signer programId' =
     concat (map (\<lambda>(c, tx, ss). instructions tx)
       (submitted (snd (initializeProgramTokenMint env connection signer programId' world0))))"

subsection \<open>Sample collaborators\<close>

text \<open>
  Concrete collaborators at which the model is evaluated.  The stand-in derivation does not
  hash: it only keeps its arguments apart, writing the seed bytes and the program
  identifier side by side, with bump 255.
\<close>

definition sample_findProgramAddress :: "Buffer list \<Rightarrow> PublicKey \<Rightarrow> (PublicKey \<times> nat) promise" where
  "sample_findProgramAddress seeds program =
     Fulfilled (PublicKey (map (\<lambda>b. char_of (unat b)) (concat seeds) @ ''@'' @ toBase58 program), 255)"

definition alice :: Keypair where
  "alice = \<lparr>publicKey = PublicKey ''Alice'', secretKey = [1, 2, 3]\<rparr>"

definition bob :: Keypair where
  "bob = \<lparr>publicKey = PublicKey ''Bob'', secretKey = [4, 5, 6]\<rparr>"

text \<open>The same public key as \<open>alice\<close>, another secret key.\<close>

definition alice' :: Keypair where
  "alice' = \<lparr>publicKey = PublicKey ''Alice'', secretKey = [7, 8, 9]\<rparr>"

definition localhost :: Connection where
  "localhost = Connection ''http://localhost:8899''"

text \<open>The system program's identifier, as a program identifier other than \<open>PROGRAM_ID\<close>.\<close>

definition other_program :: PublicKey where
  "other_program = PublicKey ''11111111111111111111111111111111''"

text \<open>Every collaborator succeeds; the submission returns the identifier \<open>''5VERv8NM''\<close>.\<close>

definition sample_env :: env where
  "sample_env =
     \<lparr>findProgramAddress = sample_findProgramAddress,
      sendAndConfirmTransaction = (\<lambda>c tx ss. Fulfilled ''5VERv8NM''),
      initializeKeypair = (\<lambda>c. (Fulfilled alice, [Str ''Current balance is 2''])),
      SystemProgram_programId = PublicKey ''11111111111111111111111111111111'',
      TOKEN_PROGRAM_ID = PublicKey ''TokenkegQfeZyiNwAJbNbGKPFXCWuBvf9Ss623VQ5DA'',
      SYSVAR_RENT_PUBKEY = PublicKey ''SysvarRent111111111111111111111111111111111''\<rparr>"

text \<open>As \<open>sample_env\<close>, but the submission throws (a simulated network error).\<close>

definition failing_env :: env where
  "failing_env =
     sample_env\<lparr>sendAndConfirmTransaction := (\<lambda>c tx ss. Rejected (Error ''fetch failed''))\<rparr>"

section \<open>Properties\<close>

subsection \<open>What a call does\<close>

text \<open>
  The instruction of lines 25 to 60 as a term of the signer and the two derived addresses,
  to state what is submitted.
\<close>

abbreviation the_ix :: "env \<Rightarrow> Keypair \<Rightarrow> PublicKey \<Rightarrow> PublicKey \<Rightarrow> TransactionInstruction" where
  "the_ix env signer tokenMint tokenAuth \<equiv>
     \<lparr>keys =
        [\<lparr>pubkey = publicKey signer, isSigner = True, isWritable = False\<rparr>,
         \<lparr>pubkey = tokenMint, isSigner = False, isWritable = True\<rparr>,
         \<lparr>pubkey = tokenAuth, isSigner = False, isWritable = False\<rparr>,
         \<lparr>pubkey = SystemProgram_programId env, isSigner = False, isWritable = False\<rparr>,
         \<lparr>pubkey = TOKEN_PROGRAM_ID env, isSigner = False, isWritable = False\<rparr>,
         \<lparr>pubkey = SYSVAR_RENT_PUBKEY env, isSigner = False, isWritable = False\<rparr>],
      programId = PROGRAM_ID,
      data = [3]\<rparr>"

lemma Buffer_from_array_3: "Buffer_from_array [3] = [3]"
  by (simp add: Buffer_from_array_def)

text \<open>When both derivations return, the call submits one transaction and comes to what
  the submission comes to.\<close>

lemma initializeProgramTokenMint_derived:
  assumes "findProgramAddress env [Buffer_from_string ''token_mint''] PROGRAM_ID = Fulfilled (tokenMint, b1)"
      and "findProgramAddress env [Buffer_from_string ''token_auth''] PROGRAM_ID = Fulfilled (tokenAuth, b2)"
  shows "initializeProgramTokenMint env c s p w =
           (sendAndConfirmTransaction env c \<lparr>instructions = [the_ix env s tokenMint tokenAuth]\<rparr> [s],
            w\<lparr>submitted := submitted w @ [(c, \<lparr>instructions = [the_ix env s tokenMint tokenAuth]\<rparr>, [s])]\<rparr>)"
  using assms
  by (simp add: initializeProgramTokenMint_def Transaction_new_def Transaction_add_def
        Buffer_from_array_3 Let_def)

text \<open>When a derivation does not return, the world is left as it was.\<close>

lemma initializeProgramTokenMint_not_derived:
  assumes "(\<forall>m b. findProgramAddress env [Buffer_from_string ''token_mint''] PROGRAM_ID \<noteq> Fulfilled (m, b))
         \<or> (\<forall>a b. findProgramAddress env [Buffer_from_string ''token_auth''] PROGRAM_ID \<noteq> Fulfilled (a, b))"
  shows "snd (initializeProgramTokenMint env c s p w) = w"
  using assms
  by (auto simp add: initializeProgramTokenMint_def split: promise.splits prod.splits)

lemma produced_derived:
  assumes "findProgramAddress env [Buffer_from_string ''token_mint''] PROGRAM_ID = Fulfilled (tokenMint, b1)"
      and "findProgramAddress env [Buffer_from_string ''token_auth''] PROGRAM_ID = Fulfilled (tokenAuth, b2)"
  shows "produced env c s p = [the_ix env s tokenMint tokenAuth]"
  by (simp add: produced_def initializeProgramTokenMint_derived [OF assms] world0_def)

lemma produced_cases:
  obtains (none) "produced env c s p = []"
  | (one) tokenMint b1 tokenAuth b2 where
      "findProgramAddress env [Buffer_from_string ''token_mint''] PROGRAM_ID = Fulfilled (tokenMint, b1)"
      "findProgramAddress env [Buffer_from_string ''token_auth''] PROGRAM_ID = Fulfilled (tokenAuth, b2)"
      "produced env c s p = [the_ix env s tokenMint tokenAuth]"
proof (cases "(\<exists>m b. findProgramAddress env [Buffer_from_string ''token_mint''] PROGRAM_ID = Fulfilled (m, b))
         \<and> (\<exists>a b. findProgramAddress env [Buffer_from_string ''token_auth''] PROGRAM_ID = Fulfilled (a, b))")
  case True
  then obtain m b1 a b2 where
    h: "findProgramAddress env [Buffer_from_string ''token_mint''] PROGRAM_ID = Fulfilled (m, b1)"
       "findProgramAddress env [Buffer_from_string ''token_auth''] PROGRAM_ID = Fulfilled (a, b2)"
    by blast
  show ?thesis using one [OF h produced_derived [OF h]] .
next
  case False
  then have "snd (initializeProgramTokenMint env c s p world0) = world0"
    by (intro initializeProgramTokenMint_not_derived) blast
  then have "produced env c s p = []"
    by (simp add: produced_def world0_def)
  then show ?thesis by (rule none)
qed

text \<open>A produced instruction is the one of lines 25 to 60, at the two derived addresses.\<close>

lemma produced_singleton:
  assumes "produced env c s p = [ix]"
  obtains tokenMint b1 tokenAuth b2 where
    "findProgramAddress env [Buffer_from_string ''token_mint''] PROGRAM_ID = Fulfilled (tokenMint, b1)"
    "findProgramAddress env [Buffer_from_string ''token_auth''] PROGRAM_ID = Fulfilled (tokenAuth, b2)"
    "ix = the_ix env s tokenMint tokenAuth"
  using assms by (cases env c s p rule: produced_cases) auto

text \<open>The instructions a call produces, in one equation.\<close>

lemma produced_eq:
  "produced env c s p =
     (case findProgramAddress env [Buffer_from_string ''token_mint''] PROGRAM_ID of
        Fulfilled (tokenMint, b1) \<Rightarrow>
          (case findProgramAddress env [Buffer_from_string ''token_auth''] PROGRAM_ID of
             Fulfilled (tokenAuth, b2) \<Rightarrow> [the_ix env s tokenMint tokenAuth]
           | Rejected e \<Rightarrow> []
           | Pending \<Rightarrow> [])
      | Rejected e \<Rightarrow> []
      | Pending \<Rightarrow> [])"
  by (simp add: produced_def initializeProgramTokenMint_def Transaction_new_def
        Transaction_add_def Buffer_from_array_3 world0_def Let_def
      split: promise.splits prod.splits)

text \<open>A derivation that throws ends the call with the thrown value.\<close>

lemma initializeProgramTokenMint_mint_Rejected:
  assumes "findProgramAddress env [Buffer_from_string ''token_mint''] PROGRAM_ID = Rejected e"
  shows "initializeProgramTokenMint env c s p w = (Rejected e, w)"
  using assms by (simp add: initializeProgramTokenMint_def)

lemma initializeProgramTokenMint_auth_Rejected:
  assumes "findProgramAddress env [Buffer_from_string ''token_mint''] PROGRAM_ID = Fulfilled (m, b)"
      and "findProgramAddress env [Buffer_from_string ''token_auth''] PROGRAM_ID = Rejected e"
  shows "initializeProgramTokenMint env c s p w = (Rejected e, w)"
  using assms by (simp add: initializeProgramTokenMint_def)

text \<open>What a call adds to the submissions: nothing, or the one transaction.\<close>

lemma initializeProgramTokenMint_submitted:
  obtains (unsubmitted) "snd (initializeProgramTokenMint env c s p w) = w"
      "\<And>x. fst (initializeProgramTokenMint env c s p w) \<noteq> Fulfilled x"
      "produced env c s p = []"
  | (one) ix where "produced env c s p = [ix]"
      "initializeProgramTokenMint env c s p w =
         (sendAndConfirmTransaction env c \<lparr>instructions = [ix]\<rparr> [s],
          w\<lparr>submitted := submitted w @ [(c, \<lparr>instructions = [ix]\<rparr>, [s])]\<rparr>)"
proof (cases "(\<exists>m b. findProgramAddress env [Buffer_from_string ''token_mint''] PROGRAM_ID = Fulfilled (m, b))
         \<and> (\<exists>a b. findProgramAddress env [Buffer_from_string ''token_auth''] PROGRAM_ID = Fulfilled (a, b))")
  case True
  then obtain m b1 a b2 where
    h: "findProgramAddress env [Buffer_from_string ''token_mint''] PROGRAM_ID = Fulfilled (m, b1)"
       "findProgramAddress env [Buffer_from_string ''token_auth''] PROGRAM_ID = Fulfilled (a, b2)"
    by blast
  show ?thesis
    using one [OF produced_derived [OF h] initializeProgramTokenMint_derived [OF h]] .
next
  case False
  then have n: "(\<forall>m b. findProgramAddress env [Buffer_from_string ''token_mint''] PROGRAM_ID \<noteq> Fulfilled (m, b))
         \<or> (\<forall>a b. findProgramAddress env [Buffer_from_string ''token_auth''] PROGRAM_ID \<noteq> Fulfilled (a, b))"
    by blast
  have 1: "snd (initializeProgramTokenMint env c s p w) = w"
    by (rule initializeProgramTokenMint_not_derived [OF n])
  have 2: "fst (initializeProgramTokenMint env c s p w) \<noteq> Fulfilled x" for x
    using n by (auto simp add: initializeProgramTokenMint_def split: promise.splits prod.splits)
  have "snd (initializeProgramTokenMint env c s p world0) = world0"
    by (rule initializeProgramTokenMint_not_derived [OF n])
  then have 3: "produced env c s p = []"
    by (simp add: produced_def world0_def)
  show ?thesis using 1 2 3 unsubmitted by blast
qed

subsection \<open>What a run does\<close>

lemma main_keypair_Rejected:
  assumes "fst (initializeKeypair env (Connection ''http://localhost:8899'')) = Rejected e"
  shows "main env w =
           (Rejected e, w\<lparr>stdout := stdout w @ snd (initializeKeypair env (Connection ''http://localhost:8899''))\<rparr>)"
  using assms
  by (cases "initializeKeypair env (Connection ''http://localhost:8899'')") (simp add: main_def Let_def)

lemma main_keypair_Pending:
  assumes "fst (initializeKeypair env (Connection ''http://localhost:8899'')) = Pending"
  shows "main env w =
           (Pending, w\<lparr>stdout := stdout w @ snd (initializeKeypair env (Connection ''http://localhost:8899''))\<rparr>)"
  using assms
  by (cases "initializeKeypair env (Connection ''http://localhost:8899'')") (simp add: main_def Let_def)

lemma main_keypair_Fulfilled:
  assumes "fst (initializeKeypair env (Connection ''http://localhost:8899'')) = Fulfilled s"
  shows "main env w =
     (case initializeProgramTokenMint env (Connection ''http://localhost:8899'') s PROGRAM_ID
             (w\<lparr>stdout := stdout w @ snd (initializeKeypair env (Connection ''http://localhost:8899''))\<rparr>) of
        (Rejected e, w') \<Rightarrow> (Rejected e, w')
      | (Pending, w') \<Rightarrow> (Pending, w')
      | (Fulfilled txid, w') \<Rightarrow>
          (Fulfilled (),
           console_log (Str (''Transaction submitted: https://explorer.solana.com/tx/'' @ txid
                          @ ''?cluster=devnet'')) w'))"
  using assms
  by (cases "initializeKeypair env (Connection ''http://localhost:8899'')") (simp add: main_def Let_def)

lemma script_of_main_Rejected:
  assumes "main env world0 = (Rejected e, w)"
  shows "script env = process_exit 1 (console_log (Err e) w)"
  unfolding script_def assms by simp

text \<open>
  A run never exits, or exits with 1 before or after its submission, or exits with 0.
\<close>

lemma script_cases:
  obtains
    (pending) "exit_code (script env) = None"
      "fst (main env world0) = Pending"
      "submitted (script env) = []
       \<or> (\<exists>s ix. fst (initializeKeypair env (Connection ''http://localhost:8899'')) = Fulfilled s
             \<and> produced env (Connection ''http://localhost:8899'') s PROGRAM_ID = [ix]
             \<and> sendAndConfirmTransaction env (Connection ''http://localhost:8899'')
                   \<lparr>instructions = [ix]\<rparr> [s] = Pending
             \<and> submitted (script env)
                 = [(Connection ''http://localhost:8899'', \<lparr>instructions = [ix]\<rparr>, [s])])"
  | (no_submission) e where
      "fst (main env world0) = Rejected e"
      "script env = \<lparr>stdout = snd (initializeKeypair env (Connection ''http://localhost:8899'')) @ [Err e],
                     submitted = [], exit_code = Some 1\<rparr>"
      "fst (initializeKeypair env (Connection ''http://localhost:8899'')) = Rejected e
       \<or> (\<exists>s. fst (initializeKeypair env (Connection ''http://localhost:8899'')) = Fulfilled s
            \<and> produced env (Connection ''http://localhost:8899'') s PROGRAM_ID = [])"
  | (submission_Rejected) s ix e where
      "fst (initializeKeypair env (Connection ''http://localhost:8899'')) = Fulfilled s"
      "produced env (Connection ''http://localhost:8899'') s PROGRAM_ID = [ix]"
      "sendAndConfirmTransaction env (Connection ''http://localhost:8899'') \<lparr>instructions = [ix]\<rparr> [s] = Rejected e"
      "fst (main env world0) = Rejected e"
      "script env = \<lparr>stdout = snd (initializeKeypair env (Connection ''http://localhost:8899'')) @ [Err e],
                     submitted = [(Connection ''http://localhost:8899'', \<lparr>instructions = [ix]\<rparr>, [s])],
                     exit_code = Some 1\<rparr>"
  | (submission_Fulfilled) s ix txid where
      "fst (initializeKeypair env (Connection ''http://localhost:8899'')) = Fulfilled s"
      "produced env (Connection ''http://localhost:8899'') s PROGRAM_ID = [ix]"
      "sendAndConfirmTransaction env (Connection ''http://localhost:8899'') \<lparr>instructions = [ix]\<rparr> [s] = Fulfilled txid"
      "fst (main env world0) = Fulfilled ()"
      "script env = \<lparr>stdout = snd (initializeKeypair env (Connection ''http://localhost:8899''))
                       @ [Str (''Transaction submitted: https://explorer.solana.com/tx/'' @ txid
                                @ ''?cluster=devnet''),
                          Str ''Finished successfully''],
                     submitted = [(Connection ''http://localhost:8899'', \<lparr>instructions = [ix]\<rparr>, [s])],
                     exit_code = Some 0\<rparr>"
proof (cases "fst (initializeKeypair env (Connection ''http://localhost:8899''))")
  case (Rejected e)
  note m = main_keypair_Rejected [OF Rejected, of world0]
  have "script env = \<lparr>stdout = snd (initializeKeypair env (Connection ''http://localhost:8899'')) @ [Err e],
                     submitted = [], exit_code = Some 1\<rparr>"
    unfolding script_def m by (simp add: world0_def console_log_def process_exit_def)
  with Rejected show ?thesis
    using no_submission [of e] by (simp add: m)
next
  case Pending
  note m = main_keypair_Pending [OF Pending, of world0]
  have "exit_code (script env) = None" "submitted (script env) = []"
    unfolding script_def m by (simp_all add: world0_def)
  then show ?thesis
    using pending by (simp add: m)
next
  case (Fulfilled s)
  note k = main_keypair_Fulfilled [OF Fulfilled, of world0]
  note ks = \<open>fst (initializeKeypair env (Connection ''http://localhost:8899'')) = Fulfilled s\<close>
  let ?c = "Connection ''http://localhost:8899''"
  let ?w = "world0\<lparr>stdout := stdout world0 @ snd (initializeKeypair env ?c)\<rparr>"
  show ?thesis
  proof (cases rule: initializeProgramTokenMint_submitted
      [where env = env and c = ?c and s = s and p = PROGRAM_ID and w = ?w])
    case unsubmitted
    obtain r w' where rw: "initializeProgramTokenMint env ?c s PROGRAM_ID ?w = (r, w')"
      by (cases "initializeProgramTokenMint env ?c s PROGRAM_ID ?w")
    have w': "w' = ?w"
      using unsubmitted(1) by (simp add: rw)
    have r: "r \<noteq> Fulfilled x" for x
      using unsubmitted(2) [of x] by (simp add: rw)
    show ?thesis
    proof (cases r)
      case (Fulfilled x)
      with r [of x] show ?thesis by blast
    next
      case (Rejected e)
      have m: "main env world0 = (Rejected e, ?w)"
        by (simp add: k rw Rejected w')
      have "script env = \<lparr>stdout = snd (initializeKeypair env ?c) @ [Err e],
                     submitted = [], exit_code = Some 1\<rparr>"
        unfolding script_def m by (simp add: world0_def console_log_def process_exit_def)
      with m show ?thesis
        using no_submission [of e] unsubmitted(3) ks by simp
    next
      case Pending
      have m: "main env world0 = (Pending, ?w)"
        by (simp add: k rw Pending w')
      have "exit_code (script env) = None" "submitted (script env) = []"
        unfolding script_def m by (simp_all add: world0_def)
      with m show ?thesis
        using pending by simp
    qed
  next
    case (one ix)
    let ?w' = "?w\<lparr>submitted := submitted ?w @ [(?c, \<lparr>instructions = [ix]\<rparr>, [s])]\<rparr>"
    show ?thesis
    proof (cases "sendAndConfirmTransaction env ?c \<lparr>instructions = [ix]\<rparr> [s]")
      case (Fulfilled txid)
      have m: "main env world0 =
                 (Fulfilled (),
                  console_log (Str (''Transaction submitted: https://explorer.solana.com/tx/'' @ txid
                          @ ''?cluster=devnet'')) ?w')"
        by (simp add: k one(2) Fulfilled)
      have "script env = \<lparr>stdout = snd (initializeKeypair env ?c)
                       @ [Str (''Transaction submitted: https://explorer.solana.com/tx/'' @ txid
                                @ ''?cluster=devnet''),
                          Str ''Finished successfully''],
                     submitted = [(?c, \<lparr>instructions = [ix]\<rparr>, [s])],
                     exit_code = Some 0\<rparr>"
        unfolding script_def m by (simp add: world0_def console_log_def process_exit_def)
      with m show ?thesis
        using submission_Fulfilled [of s ix txid] one(1) Fulfilled ks by simp
    next
      case (Rejected e)
      have m: "main env world0 = (Rejected e, ?w')"
        by (simp add: k one(2) Rejected)
      have "script env = \<lparr>stdout = snd (initializeKeypair env ?c) @ [Err e],
                     submitted = [(?c, \<lparr>instructions = [ix]\<rparr>, [s])],
                     exit_code = Some 1\<rparr>"
        unfolding script_def m by (simp add: world0_def console_log_def process_exit_def)
      with m show ?thesis
        using submission_Rejected [of s ix e] one(1) Rejected ks by simp
    next
      case Pending
      have m: "main env world0 = (Pending, ?w')"
        by (simp add: k one(2) Pending)
      have "exit_code (script env) = None"
        "submitted (script env) = [(?c, \<lparr>instructions = [ix]\<rparr>, [s])]"
        unfolding script_def m by (simp_all add: world0_def)
      with m show ?thesis
        using pending one(1) Pending ks by simp
    qed
  qed
qed

subsection \<open>The sample collaborators, evaluated\<close>

lemma char_of_byte: "char_of (unat (word_of_nat (of_char c) :: 8 word)) = c"
proof -
  have "unat (word_of_nat (of_char c) :: 8 word) = take_bit 8 (of_char c :: nat)"
    by (simp add: unsigned_of_nat)
  then show ?thesis
    by (simp add: char_of_take_bit_eq)
qed

lemma chars_of_Buffer_from_string:
  "map (\<lambda>b. char_of (unat b)) (Buffer_from_string s) = s"
  by (simp add: Buffer_from_string_def o_def char_of_byte)

lemma sample_mint:
  "findProgramAddress sample_env [Buffer_from_string ''token_mint''] program =
     Fulfilled (PublicKey (''token_mint@'' @ toBase58 program), 255)"
  by (simp add: sample_env_def sample_findProgramAddress_def chars_of_Buffer_from_string)

lemma sample_auth:
  "findProgramAddress sample_env [Buffer_from_string ''token_auth''] program =
     Fulfilled (PublicKey (''token_auth@'' @ toBase58 program), 255)"
  by (simp add: sample_env_def sample_findProgramAddress_def chars_of_Buffer_from_string)

lemma sample_mint_PROGRAM_ID:
  "findProgramAddress sample_env [Buffer_from_string ''token_mint''] PROGRAM_ID
     = Fulfilled (PublicKey ''token_mint@4QPCBtQ1qSwTmUy9yrGZoqCjZPen8eCE2HcHtKeNWYj6'', 255)"
  by (simp add: sample_mint PROGRAM_ID_def)

lemma sample_auth_PROGRAM_ID:
  "findProgramAddress sample_env [Buffer_from_string ''token_auth''] PROGRAM_ID
     = Fulfilled (PublicKey ''token_auth@4QPCBtQ1qSwTmUy9yrGZoqCjZPen8eCE2HcHtKeNWYj6'', 255)"
  by (simp add: sample_auth PROGRAM_ID_def)

lemma sample_env_fields:
  "initializeKeypair sample_env c = (Fulfilled alice, [Str ''Current balance is 2''])"
  "sendAndConfirmTransaction sample_env c tx ss = Fulfilled ''5VERv8NM''"
  "SystemProgram_programId sample_env = PublicKey ''11111111111111111111111111111111''"
  "TOKEN_PROGRAM_ID sample_env = PublicKey ''TokenkegQfeZyiNwAJbNbGKPFXCWuBvf9Ss623VQ5DA''"
  "SYSVAR_RENT_PUBKEY sample_env = PublicKey ''SysvarRent111111111111111111111111111111111''"
  by (simp_all add: sample_env_def)

lemma failing_env_fields:
  "initializeKeypair failing_env c = (Fulfilled alice, [Str ''Current balance is 2''])"
  "sendAndConfirmTransaction failing_env c tx ss = Rejected (Error ''fetch failed'')"
  "findProgramAddress failing_env = findProgramAddress sample_env"
  "SystemProgram_programId failing_env = PublicKey ''11111111111111111111111111111111''"
  "TOKEN_PROGRAM_ID failing_env = PublicKey ''TokenkegQfeZyiNwAJbNbGKPFXCWuBvf9Ss623VQ5DA''"
  "SYSVAR_RENT_PUBKEY failing_env = PublicKey ''SysvarRent111111111111111111111111111111111''"
  by (simp_all add: failing_env_def sample_env_def)

text \<open>What the call produces with the sample collaborators, whoever signs.\<close>

lemma sample_produced:
  "produced sample_env c s p =
     [\<lparr>keys =
        [\<lparr>pubkey = publicKey s, isSigner = True, isWritable = False\<rparr>,
         \<lparr>pubkey = PublicKey ''token_mint@4QPCBtQ1qSwTmUy9yrGZoqCjZPen8eCE2HcHtKeNWYj6'',
            isSigner = False, isWritable = True\<rparr>,
         \<lparr>pubkey = PublicKey ''token_auth@4QPCBtQ1qSwTmUy9yrGZoqCjZPen8eCE2HcHtKeNWYj6'',
            isSigner = False, isWritable = False\<rparr>,
         \<lparr>pubkey = PublicKey ''11111111111111111111111111111111'',
            isSigner = False, isWritable = False\<rparr>,
         \<lparr>pubkey = PublicKey ''TokenkegQfeZyiNwAJbNbGKPFXCWuBvf9Ss623VQ5DA'',
            isSigner = False, isWritable = False\<rparr>,
         \<lparr>pubkey = PublicKey ''SysvarRent111111111111111111111111111111111'',
            isSigner = False, isWritable = False\<rparr>],
       programId = PROGRAM_ID,
       data = [3]\<rparr>]"
  by (simp add: produced_derived [OF sample_mint_PROGRAM_ID sample_auth_PROGRAM_ID])
     (simp add: sample_env_def)

lemma sample_script:
  "script sample_env =
     \<lparr>stdout = [Str ''Current balance is 2'',
                Str ''Transaction submitted: https://explorer.solana.com/tx/5VERv8NM?cluster=devnet'',
                Str ''Finished successfully''],
      submitted = [(Connection ''http://localhost:8899'',
                    \<lparr>instructions = produced sample_env (Connection ''http://localhost:8899'') alice PROGRAM_ID\<rparr>,
                    [alice])],
      exit_code = Some 0\<rparr>"
  unfolding script_def main_def
  by (simp add: sample_env_fields sample_produced
        initializeProgramTokenMint_derived [OF sample_mint_PROGRAM_ID sample_auth_PROGRAM_ID]
        world0_def console_log_def process_exit_def)

lemma failing_script:
  "script failing_env =
     \<lparr>stdout = [Str ''Current balance is 2'', Err (Error ''fetch failed'')],
      submitted = [(Connection ''http://localhost:8899'',
                    \<lparr>instructions = produced sample_env (Connection ''http://localhost:8899'') alice PROGRAM_ID\<rparr>,
                    [alice])],
      exit_code = Some 1\<rparr>"
  unfolding script_def main_def
  by (simp add: failing_env_fields sample_env_fields sample_produced
        initializeProgramTokenMint_derived
          [OF sample_mint_PROGRAM_ID [folded failing_env_fields(3)]
              sample_auth_PROGRAM_ID [folded failing_env_fields(3)]]
        world0_def console_log_def process_exit_def)

lemma sample_main: "fst (main sample_env world0) = Fulfilled ()"
  unfolding main_def
  by (simp add: sample_env_fields
        initializeProgramTokenMint_derived [OF sample_mint_PROGRAM_ID sample_auth_PROGRAM_ID])

subsection \<open>The account list\<close>

text \<open>
  C1.  For every signer and every program identifier passed, once the two addresses are
  derived the call produces one instruction, and its account list is exactly the six
  entries: the signer (signer, not writable), tokenMint (not signer, writable), tokenAuth,
  the system program, the token program and the rent sysvar (each neither signer nor
  writable), in this order.
\<close>

theorem account_list_layout:
  assumes "findProgramAddress env [Buffer_from_string ''token_mint''] PROGRAM_ID = Fulfilled (tokenMint, b1)"
      and "findProgramAddress env [Buffer_from_string ''token_auth''] PROGRAM_ID = Fulfilled (tokenAuth, b2)"
  shows "map keys (produced env c s p) =
          [[\<lparr>pubkey = publicKey s, isSigner = True, isWritable = False\<rparr>,
            \<lparr>pubkey = tokenMint, isSigner = False, isWritable = True\<rparr>,
            \<lparr>pubkey = tokenAuth, isSigner = False, isWritable = False\<rparr>,
            \<lparr>pubkey = SystemProgram_programId env, isSigner = False, isWritable = False\<rparr>,
            \<lparr>pubkey = TOKEN_PROGRAM_ID env, isSigner = False, isWritable = False\<rparr>,
            \<lparr>pubkey = SYSVAR_RENT_PUBKEY env, isSigner = False, isWritable = False\<rparr>]]"
  by (simp add: produced_derived [OF assms])

theorem account_list_layout_witness:
  "findProgramAddress sample_env [Buffer_from_string ''token_mint''] PROGRAM_ID
     = Fulfilled (PublicKey ''token_mint@4QPCBtQ1qSwTmUy9yrGZoqCjZPen8eCE2HcHtKeNWYj6'', 255)
   \<and> findProgramAddress sample_env [Buffer_from_string ''token_auth''] PROGRAM_ID
     = Fulfilled (PublicKey ''token_auth@4QPCBtQ1qSwTmUy9yrGZoqCjZPen8eCE2HcHtKeNWYj6'', 255)
   \<and> map keys (produced sample_env localhost bob PROGRAM_ID) =
          [[\<lparr>pubkey = PublicKey ''Bob'', isSigner = True, isWritable = False\<rparr>,
            \<lparr>pubkey = PublicKey ''token_mint@4QPCBtQ1qSwTmUy9yrGZoqCjZPen8eCE2HcHtKeNWYj6'',
               isSigner = False, isWritable = True\<rparr>,
            \<lparr>pubkey = PublicKey ''token_auth@4QPCBtQ1qSwTmUy9yrGZoqCjZPen8eCE2HcHtKeNWYj6'',
               isSigner = False, isWritable = False\<rparr>,
            \<lparr>pubkey = PublicKey ''11111111111111111111111111111111'',
               isSigner = False, isWritable = False\<rparr>,
            \<lparr>pubkey = PublicKey ''TokenkegQfeZyiNwAJbNbGKPFXCWuBvf9Ss623VQ5DA'',
               isSigner = False, isWritable = False\<rparr>,
            \<lparr>pubkey = PublicKey ''SysvarRent111111111111111111111111111111111'',
               isSigner = False, isWritable = False\<rparr>]]"
  using sample_mint_PROGRAM_ID sample_auth_PROGRAM_ID
    account_list_layout [OF sample_mint_PROGRAM_ID sample_auth_PROGRAM_ID, of localhost bob PROGRAM_ID]
  by (simp add: sample_env_def bob_def)

text \<open>
  C4.  With \<^verbatim>\<open>4QPCBtQ1qSwTmUy9yrGZoqCjZPen8eCE2HcHtKeNWYj6\<close> passed as the program
  identifier, every produced instruction has six account entries of which the 4th, 5th
  and 6th name the system program, the token program and the rent sysvar; and these three
  entries are the same in any two runs, whoever the signers (and the connections) are.
\<close>

theorem fixed_accounts_for_PROGRAM_ID:
  assumes "ix1 \<in> set (produced env c1 s1 (PublicKey ''4QPCBtQ1qSwTmUy9yrGZoqCjZPen8eCE2HcHtKeNWYj6''))"
      and "ix2 \<in> set (produced env c2 s2 (PublicKey ''4QPCBtQ1qSwTmUy9yrGZoqCjZPen8eCE2HcHtKeNWYj6''))"
  shows "length (keys ix1) = 6
       \<and> keys ix1 ! 3 = \<lparr>pubkey = SystemProgram_programId env, isSigner = False, isWritable = False\<rparr>
       \<and> keys ix1 ! 4 = \<lparr>pubkey = TOKEN_PROGRAM_ID env, isSigner = False, isWritable = False\<rparr>
       \<and> keys ix1 ! 5 = \<lparr>pubkey = SYSVAR_RENT_PUBKEY env, isSigner = False, isWritable = False\<rparr>
       \<and> keys ix2 ! 3 = keys ix1 ! 3 \<and> keys ix2 ! 4 = keys ix1 ! 4 \<and> keys ix2 ! 5 = keys ix1 ! 5"
proof -
  have *: "length (keys ix) = 6
       \<and> keys ix ! 3 = \<lparr>pubkey = SystemProgram_programId env, isSigner = False, isWritable = False\<rparr>
       \<and> keys ix ! 4 = \<lparr>pubkey = TOKEN_PROGRAM_ID env, isSigner = False, isWritable = False\<rparr>
       \<and> keys ix ! 5 = \<lparr>pubkey = SYSVAR_RENT_PUBKEY env, isSigner = False, isWritable = False\<rparr>"
    if "ix \<in> set (produced env c s p)" for ix c s p
    using that by (cases env c s p rule: produced_cases) auto
  from * [OF assms(1)] * [OF assms(2)] show ?thesis by simp
qed

theorem fixed_accounts_for_PROGRAM_ID_witness:
  "publicKey alice \<noteq> publicKey bob
   \<and> produced sample_env localhost alice PROGRAM_ID \<noteq> []
   \<and> produced sample_env localhost bob PROGRAM_ID \<noteq> []
   \<and> map pubkey (drop 3 (keys (hd (produced sample_env localhost alice PROGRAM_ID)))) =
       [PublicKey ''11111111111111111111111111111111'',
        PublicKey ''TokenkegQfeZyiNwAJbNbGKPFXCWuBvf9Ss623VQ5DA'',
        PublicKey ''SysvarRent111111111111111111111111111111111'']
   \<and> keys (hd (produced sample_env localhost bob PROGRAM_ID)) ! 3
       = keys (hd (produced sample_env localhost alice PROGRAM_ID)) ! 3
   \<and> keys (hd (produced sample_env localhost bob PROGRAM_ID)) ! 4
       = keys (hd (produced sample_env localhost alice PROGRAM_ID)) ! 4
   \<and> keys (hd (produced sample_env localhost bob PROGRAM_ID)) ! 5
       = keys (hd (produced sample_env localhost alice PROGRAM_ID)) ! 5"
proof -
  have a: "hd (produced sample_env localhost alice PROGRAM_ID)
             \<in> set (produced sample_env localhost alice PROGRAM_ID)"
    by (simp add: sample_produced)
  have b: "hd (produced sample_env localhost bob PROGRAM_ID)
             \<in> set (produced sample_env localhost bob PROGRAM_ID)"
    by (simp add: sample_produced)
  from fixed_accounts_for_PROGRAM_ID [OF a [unfolded PROGRAM_ID_def] b [unfolded PROGRAM_ID_def]]
  show ?thesis
    by (simp add: sample_produced alice_def bob_def)

qed

subsection \<open>The opcode payload\<close>

text \<open>
  C3.  For every signer and every program identifier passed, the payload of a produced
  instruction is the single byte 3.
\<close>

theorem opcode_payload:
  assumes "ix \<in> set (produced env c s p)"
  shows "data ix = [3]"
  using assms by (cases env c s p rule: produced_cases) auto

theorem opcode_payload_witness:
  "produced sample_env localhost alice PROGRAM_ID \<noteq> []
   \<and> data (hd (produced sample_env localhost alice PROGRAM_ID)) = [3]"
proof -
  have ne: "produced sample_env localhost alice PROGRAM_ID \<noteq> []"
    by (simp add: sample_produced)
  then have "hd (produced sample_env localhost alice PROGRAM_ID)
               \<in> set (produced sample_env localhost alice PROGRAM_ID)"
    by simp
  from opcode_payload [OF this] ne show ?thesis by simp
qed

subsection \<open>The program identifier\<close>

text \<open>
  C10.  The parameter \<^verbatim>\<open>programId\<close> is never read: two calls that differ only in the
  program identifier passed come to the same result and the same world, hence produce the
  same instructions.  The target program of every produced instruction is the constant
  \<open>PROGRAM_ID\<close>; and once the derivations from \<open>PROGRAM_ID\<close> have returned tokenMint and
  tokenAuth, the call with any identifier passed submits the one instruction whose second
  and third accounts are these two addresses and whose target program is \<open>PROGRAM_ID\<close>.
\<close>

theorem programId_argument_ignored:
  "initializeProgramTokenMint env c s p1 w = initializeProgramTokenMint env c s p2 w
   \<and> produced env c s p1 = produced env c s p2
   \<and> map programId (produced env c s p1) = replicate (length (produced env c s p1)) PROGRAM_ID
   \<and> (findProgramAddress env [Buffer_from_string ''token_mint''] PROGRAM_ID = Fulfilled (tokenMint, b1)
        \<and> findProgramAddress env [Buffer_from_string ''token_auth''] PROGRAM_ID = Fulfilled (tokenAuth, b2)
      \<longrightarrow> map (\<lambda>ix. (pubkey (keys ix ! 1), pubkey (keys ix ! 2), programId ix)) (produced env c s p1)
            = [(tokenMint, tokenAuth, PROGRAM_ID)]
          \<and> initializeProgramTokenMint env c s p1 w =
              (sendAndConfirmTransaction env c \<lparr>instructions = [the_ix env s tokenMint tokenAuth]\<rparr> [s],
               w\<lparr>submitted := submitted w
                    @ [(c, \<lparr>instructions = [the_ix env s tokenMint tokenAuth]\<rparr>, [s])]\<rparr>))"
proof -
  have "initializeProgramTokenMint env c s p1 w = initializeProgramTokenMint env c s p2 w" for w
    by (simp add: initializeProgramTokenMint_def)
  moreover from this have "produced env c s p1 = produced env c s p2"
    by (simp add: produced_def)
  moreover have "map programId (produced env c s p1) = replicate (length (produced env c s p1)) PROGRAM_ID"
    by (cases env c s p1 rule: produced_cases) auto
  moreover have "map (\<lambda>ix. (pubkey (keys ix ! 1), pubkey (keys ix ! 2), programId ix)) (produced env c s p1)
            = [(tokenMint, tokenAuth, PROGRAM_ID)]
          \<and> initializeProgramTokenMint env c s p1 w =
              (sendAndConfirmTransaction env c \<lparr>instructions = [the_ix env s tokenMint tokenAuth]\<rparr> [s],
               w\<lparr>submitted := submitted w
                    @ [(c, \<lparr>instructions = [the_ix env s tokenMint tokenAuth]\<rparr>, [s])]\<rparr>)"
    if "findProgramAddress env [Buffer_from_string ''token_mint''] PROGRAM_ID = Fulfilled (tokenMint, b1)"
       "findProgramAddress env [Buffer_from_string ''token_auth''] PROGRAM_ID = Fulfilled (tokenAuth, b2)"
    by (simp add: produced_derived [OF that] initializeProgramTokenMint_derived [OF that])
  ultimately show ?thesis by simp
qed

theorem programId_argument_ignored_witness:
  "other_program \<noteq> PROGRAM_ID
   \<and> findProgramAddress sample_env [Buffer_from_string ''token_mint''] other_program
       = Fulfilled (PublicKey ''token_mint@11111111111111111111111111111111'', 255)
   \<and> findProgramAddress sample_env [Buffer_from_string ''token_auth''] other_program
       = Fulfilled (PublicKey ''token_auth@11111111111111111111111111111111'', 255)
   \<and> findProgramAddress sample_env [Buffer_from_string ''token_mint''] PROGRAM_ID
       = Fulfilled (PublicKey ''token_mint@4QPCBtQ1qSwTmUy9yrGZoqCjZPen8eCE2HcHtKeNWYj6'', 255)
   \<and> findProgramAddress sample_env [Buffer_from_string ''token_auth''] PROGRAM_ID
       = Fulfilled (PublicKey ''token_auth@4QPCBtQ1qSwTmUy9yrGZoqCjZPen8eCE2HcHtKeNWYj6'', 255)
   \<and> initializeProgramTokenMint sample_env localhost alice other_program world0
       = initializeProgramTokenMint sample_env localhost alice PROGRAM_ID world0
   \<and> map (\<lambda>ix. (pubkey (keys ix ! 1), pubkey (keys ix ! 2), programId ix))
         (produced sample_env localhost alice other_program)
       = [(PublicKey ''token_mint@4QPCBtQ1qSwTmUy9yrGZoqCjZPen8eCE2HcHtKeNWYj6'',
           PublicKey ''token_auth@4QPCBtQ1qSwTmUy9yrGZoqCjZPen8eCE2HcHtKeNWYj6'',
           PublicKey ''4QPCBtQ1qSwTmUy9yrGZoqCjZPen8eCE2HcHtKeNWYj6'')]"
proof -
  note t = programId_argument_ignored
    [of sample_env localhost alice other_program world0 PROGRAM_ID
        "PublicKey ''token_mint@4QPCBtQ1qSwTmUy9yrGZoqCjZPen8eCE2HcHtKeNWYj6''" 255
        "PublicKey ''token_auth@4QPCBtQ1qSwTmUy9yrGZoqCjZPen8eCE2HcHtKeNWYj6''" 255]
  have ne: "other_program \<noteq> PROGRAM_ID"
    by (simp add: other_program_def PROGRAM_ID_def)
  from t sample_mint_PROGRAM_ID sample_auth_PROGRAM_ID
  have "initializeProgramTokenMint sample_env localhost alice other_program world0
       = initializeProgramTokenMint sample_env localhost alice PROGRAM_ID world0"
    and "map (\<lambda>ix. (pubkey (keys ix ! 1), pubkey (keys ix ! 2), programId ix))
         (produced sample_env localhost alice other_program)
       = [(PublicKey ''token_mint@4QPCBtQ1qSwTmUy9yrGZoqCjZPen8eCE2HcHtKeNWYj6'',
           PublicKey ''token_auth@4QPCBtQ1qSwTmUy9yrGZoqCjZPen8eCE2HcHtKeNWYj6'',
           PROGRAM_ID)]"
    by blast+
  with ne show ?thesis
    by (simp add: sample_mint_PROGRAM_ID sample_auth_PROGRAM_ID sample_mint sample_auth
          other_program_def)
       (simp add: PROGRAM_ID_def)
qed



subsection \<open>The signer and the instruction\<close>

text \<open>
  Two runs that differ only in the signer do not produce the same instruction: the first
  account is the signer's public key.
\<close>

theorem different_signers_different_instructions:
  "produced sample_env localhost alice PROGRAM_ID \<noteq> produced sample_env localhost bob PROGRAM_ID"
  by (simp add: sample_produced alice_def bob_def)

text \<open>
  C8, with the signer's public key among the fixed inputs.  The derivation being a
  function of the program identifier and the seed, two runs of the builder with the same
  program identifier passed produce identical instructions whenever the two signers have
  the same public key; and whoever the signers are, the two instructions agree in the target program, the payload, the flags of all six
  accounts and the public keys of the accounts 2 to 6: they differ in the public key of the
  first account at most.
\<close>

theorem instruction_determined_by_signer_publicKey:
  "(publicKey s1 = publicKey s2 \<longrightarrow> produced env c1 s1 p = produced env c2 s2 p)
   \<and> map (\<lambda>ix. (map pubkey (tl (keys ix)), map isSigner (keys ix), map isWritable (keys ix),
                programId ix, data ix)) (produced env c1 s1 p)
     = map (\<lambda>ix. (map pubkey (tl (keys ix)), map isSigner (keys ix), map isWritable (keys ix),
                programId ix, data ix)) (produced env c2 s2 p)"
  by (simp add: produced_eq split: promise.splits prod.splits)

theorem instruction_determined_by_signer_publicKey_witness:
  "publicKey alice = publicKey alice' \<and> secretKey alice \<noteq> secretKey alice'
   \<and> produced sample_env localhost alice PROGRAM_ID = produced sample_env localhost alice' PROGRAM_ID"
proof -
  have pk: "publicKey alice = publicKey alice'"
    by (simp add: alice_def alice'_def)
  have sk: "secretKey alice \<noteq> secretKey alice'"
    by (simp add: alice_def alice'_def)
  from instruction_determined_by_signer_publicKey
         [of alice alice' sample_env localhost PROGRAM_ID localhost] pk
  have "produced sample_env localhost alice PROGRAM_ID = produced sample_env localhost alice' PROGRAM_ID"
    by blast
  with pk sk show ?thesis by blast
qed

subsection \<open>The transaction\<close>

text \<open>
  C5.  A call whose two derivations have returned submits one transaction, signed by the one
  signer, whose only instruction is the instruction built at lines 25 to 60; a call submits
  this transaction or nothing.  In every run at most one transaction is submitted, and
  every submitted transaction holds exactly that one instruction, built for the signer that
  \<^verbatim>\<open>initializeKeypair\<close> supplied and the two derived addresses.
\<close>

theorem single_instruction_transaction:
  "(findProgramAddress env [Buffer_from_string ''token_mint''] PROGRAM_ID = Fulfilled (tokenMint, b1)
      \<and> findProgramAddress env [Buffer_from_string ''token_auth''] PROGRAM_ID = Fulfilled (tokenAuth, b2)
    \<longrightarrow> submitted (snd (initializeProgramTokenMint env c s p w)) =
          submitted w @ [(c, \<lparr>instructions = [the_ix env s tokenMint tokenAuth]\<rparr>, [s])])
   \<and> (submitted (snd (initializeProgramTokenMint env c s p w)) = submitted w
       \<or> (\<exists>m b a b'.
             findProgramAddress env [Buffer_from_string ''token_mint''] PROGRAM_ID = Fulfilled (m, b)
           \<and> findProgramAddress env [Buffer_from_string ''token_auth''] PROGRAM_ID = Fulfilled (a, b')
           \<and> submitted (snd (initializeProgramTokenMint env c s p w)) =
               submitted w @ [(c, \<lparr>instructions = [the_ix env s m a]\<rparr>, [s])]))
   \<and> length (submitted (script env)) \<le> 1
   \<and> (\<forall>(c, tx, ss) \<in> set (submitted (script env)).
        \<exists>s m b a b'.
            c = Connection ''http://localhost:8899''
          \<and> fst (initializeKeypair env c) = Fulfilled s
          \<and> ss = [s]
          \<and> findProgramAddress env [Buffer_from_string ''token_mint''] PROGRAM_ID = Fulfilled (m, b)
          \<and> findProgramAddress env [Buffer_from_string ''token_auth''] PROGRAM_ID = Fulfilled (a, b')
          \<and> tx = \<lparr>instructions = [the_ix env s m a]\<rparr>)"
proof -
  have 1: "submitted (snd (initializeProgramTokenMint env c s p w)) =
          submitted w @ [(c, \<lparr>instructions = [the_ix env s tokenMint tokenAuth]\<rparr>, [s])]"
    if "findProgramAddress env [Buffer_from_string ''token_mint''] PROGRAM_ID = Fulfilled (tokenMint, b1)"
      "findProgramAddress env [Buffer_from_string ''token_auth''] PROGRAM_ID = Fulfilled (tokenAuth, b2)"
    for tokenMint b1 tokenAuth b2
    by (simp add: initializeProgramTokenMint_derived [OF that])
  have 2: "submitted (snd (initializeProgramTokenMint env c s p w)) = submitted w
       \<or> (\<exists>m b a b'.
             findProgramAddress env [Buffer_from_string ''token_mint''] PROGRAM_ID = Fulfilled (m, b)
           \<and> findProgramAddress env [Buffer_from_string ''token_auth''] PROGRAM_ID = Fulfilled (a, b')
           \<and> submitted (snd (initializeProgramTokenMint env c s p w)) =
               submitted w @ [(c, \<lparr>instructions = [the_ix env s m a]\<rparr>, [s])])"
  proof (cases rule: initializeProgramTokenMint_submitted
          [where env = env and c = c and s = s and p = p and w = w])
    case unsubmitted
    then show ?thesis by simp
  next
    case (one ix)
    from one(1) obtain m b a b' where
      d: "findProgramAddress env [Buffer_from_string ''token_mint''] PROGRAM_ID = Fulfilled (m, b)"
         "findProgramAddress env [Buffer_from_string ''token_auth''] PROGRAM_ID = Fulfilled (a, b')"
      by (rule produced_singleton)
    from d 1 [OF d] show ?thesis by blast
  qed
  have 3: "length (submitted (script env)) \<le> 1"
    by (cases env rule: script_cases) auto
  have 4: "\<exists>s m b a b'.
            c = Connection ''http://localhost:8899''
          \<and> fst (initializeKeypair env c) = Fulfilled s
          \<and> ss = [s]
          \<and> findProgramAddress env [Buffer_from_string ''token_mint''] PROGRAM_ID = Fulfilled (m, b)
          \<and> findProgramAddress env [Buffer_from_string ''token_auth''] PROGRAM_ID = Fulfilled (a, b')
          \<and> tx = \<lparr>instructions = [the_ix env s m a]\<rparr>"
    if sub: "(c, tx, ss) \<in> set (submitted (script env))" for c tx ss
  proof -
    let ?c = "Connection ''http://localhost:8899''"
    have "\<exists>s ix. fst (initializeKeypair env ?c) = Fulfilled s
           \<and> produced env ?c s PROGRAM_ID = [ix]
           \<and> c = ?c \<and> tx = \<lparr>instructions = [ix]\<rparr> \<and> ss = [s]"
      using sub by (cases env rule: script_cases) auto
    then obtain s ix where k: "fst (initializeKeypair env ?c) = Fulfilled s"
      and p: "produced env ?c s PROGRAM_ID = [ix]"
      and e: "c = ?c" "tx = \<lparr>instructions = [ix]\<rparr>" "ss = [s]"
      by blast
    from p obtain m b a b' where
      d: "findProgramAddress env [Buffer_from_string ''token_mint''] PROGRAM_ID = Fulfilled (m, b)"
         "findProgramAddress env [Buffer_from_string ''token_auth''] PROGRAM_ID = Fulfilled (a, b')"
         "ix = the_ix env s m a"
      by (rule produced_singleton)
    from k e d show ?thesis by blast
  qed
  from 1 2 3 4 show ?thesis by blast
qed

theorem single_instruction_transaction_witness:
  "findProgramAddress sample_env [Buffer_from_string ''token_mint''] PROGRAM_ID
     = Fulfilled (PublicKey ''token_mint@4QPCBtQ1qSwTmUy9yrGZoqCjZPen8eCE2HcHtKeNWYj6'', 255)
   \<and> findProgramAddress sample_env [Buffer_from_string ''token_auth''] PROGRAM_ID
     = Fulfilled (PublicKey ''token_auth@4QPCBtQ1qSwTmUy9yrGZoqCjZPen8eCE2HcHtKeNWYj6'', 255)
   \<and> submitted (snd (initializeProgramTokenMint sample_env localhost bob other_program world0)) =
       [(localhost,
         \<lparr>instructions =
            [\<lparr>keys =
               [\<lparr>pubkey = PublicKey ''Bob'', isSigner = True, isWritable = False\<rparr>,
                \<lparr>pubkey = PublicKey ''token_mint@4QPCBtQ1qSwTmUy9yrGZoqCjZPen8eCE2HcHtKeNWYj6'',
                   isSigner = False, isWritable = True\<rparr>,
                \<lparr>pubkey = PublicKey ''token_auth@4QPCBtQ1qSwTmUy9yrGZoqCjZPen8eCE2HcHtKeNWYj6'',
                   isSigner = False, isWritable = False\<rparr>,
                \<lparr>pubkey = PublicKey ''11111111111111111111111111111111'',
                   isSigner = False, isWritable = False\<rparr>,
                \<lparr>pubkey = PublicKey ''TokenkegQfeZyiNwAJbNbGKPFXCWuBvf9Ss623VQ5DA'',
                   isSigner = False, isWritable = False\<rparr>,
                \<lparr>pubkey = PublicKey ''SysvarRent111111111111111111111111111111111'',
                   isSigner = False, isWritable = False\<rparr>],
              programId = PROGRAM_ID,
              data = [3]\<rparr>]\<rparr>,
         [bob])]
   \<and> length (submitted (script sample_env)) = 1
   \<and> map (\<lambda>(c, tx, ss). length (instructions tx)) (submitted (script sample_env)) = [1]"
proof -
  note t = single_instruction_transaction
    [of sample_env "PublicKey ''token_mint@4QPCBtQ1qSwTmUy9yrGZoqCjZPen8eCE2HcHtKeNWYj6''" 255
        "PublicKey ''token_auth@4QPCBtQ1qSwTmUy9yrGZoqCjZPen8eCE2HcHtKeNWYj6''" 255
        localhost bob other_program world0]
  from t sample_mint_PROGRAM_ID sample_auth_PROGRAM_ID
  have "submitted (snd (initializeProgramTokenMint sample_env localhost bob other_program world0)) =
          submitted world0 @
          [(localhost,
            \<lparr>instructions =
               [the_ix sample_env bob
                  (PublicKey ''token_mint@4QPCBtQ1qSwTmUy9yrGZoqCjZPen8eCE2HcHtKeNWYj6'')
                  (PublicKey ''token_auth@4QPCBtQ1qSwTmUy9yrGZoqCjZPen8eCE2HcHtKeNWYj6'')]\<rparr>,
            [bob])]"
    by blast
  then show ?thesis
    by (simp add: sample_mint_PROGRAM_ID sample_auth_PROGRAM_ID sample_env_fields world0_def
          bob_def sample_script sample_produced)
qed

subsection \<open>Exit codes\<close>

text \<open>
  C6.  When a step of the run throws the value \<open>e\<close> (\<^verbatim>\<open>initializeKeypair\<close>, the first or
  the second derivation, or the submission of a transaction the run submitted), \<^verbatim>\<open>main\<close>
  rejects with \<open>e\<close> itself, the script prints \<open>e\<close> and nothing else beyond what
  \<^verbatim>\<open>initializeKeypair\<close> had printed (so neither the explorer line nor
  \<^verbatim>\<open>Finished successfully\<close>), and the process exits with code 1.
\<close>

theorem thrown_error_exits_1:
  assumes "fst (initializeKeypair env (Connection ''http://localhost:8899'')) = Rejected e
     \<or> (\<exists>s. fst (initializeKeypair env (Connection ''http://localhost:8899'')) = Fulfilled s
           \<and> findProgramAddress env [Buffer_from_string ''token_mint''] PROGRAM_ID = Rejected e)
     \<or> (\<exists>s m b. fst (initializeKeypair env (Connection ''http://localhost:8899'')) = Fulfilled s
           \<and> findProgramAddress env [Buffer_from_string ''token_mint''] PROGRAM_ID = Fulfilled (m, b)
           \<and> findProgramAddress env [Buffer_from_string ''token_auth''] PROGRAM_ID = Rejected e)
     \<or> (\<exists>c tx ss. (c, tx, ss) \<in> set (submitted (script env))
           \<and> sendAndConfirmTransaction env c tx ss = Rejected e)"
  shows "fst (main env world0) = Rejected e
       \<and> stdout (script env) = snd (initializeKeypair env (Connection ''http://localhost:8899'')) @ [Err e]
       \<and> exit_code (script env) = Some 1"
proof -
  let ?c = "Connection ''http://localhost:8899''"
  let ?w = "world0\<lparr>stdout := stdout world0 @ snd (initializeKeypair env ?c)\<rparr>"
  have rejected: ?thesis if m: "main env world0 = (Rejected e, ?w)"
    by (simp add: script_of_main_Rejected [OF m] m)
       (simp add: world0_def console_log_def process_exit_def)
  from assms show ?thesis
  proof (elim disjE exE conjE)
    assume "fst (initializeKeypair env ?c) = Rejected e"
    then show ?thesis
      by (intro rejected main_keypair_Rejected)
  next
    fix s
    assume k: "fst (initializeKeypair env ?c) = Fulfilled s"
      and d: "findProgramAddress env [Buffer_from_string ''token_mint''] PROGRAM_ID = Rejected e"
    show ?thesis
      by (rule rejected)
         (simp add: main_keypair_Fulfilled [OF k] initializeProgramTokenMint_mint_Rejected [OF d])
  next
    fix s m b
    assume k: "fst (initializeKeypair env ?c) = Fulfilled s"
      and d: "findProgramAddress env [Buffer_from_string ''token_mint''] PROGRAM_ID = Fulfilled (m, b)"
         "findProgramAddress env [Buffer_from_string ''token_auth''] PROGRAM_ID = Rejected e"
    show ?thesis
      by (rule rejected)
         (simp add: main_keypair_Fulfilled [OF k] initializeProgramTokenMint_auth_Rejected [OF d])
  next
    fix c tx ss
    assume "(c, tx, ss) \<in> set (submitted (script env))"
      and "sendAndConfirmTransaction env c tx ss = Rejected e"
    then show ?thesis
      by (cases env rule: script_cases) auto
  qed
qed

theorem thrown_error_exits_1_witness:
  "(Connection ''http://localhost:8899'',
     \<lparr>instructions = produced sample_env (Connection ''http://localhost:8899'') alice PROGRAM_ID\<rparr>,
     [alice]) \<in> set (submitted (script failing_env))
   \<and> sendAndConfirmTransaction failing_env (Connection ''http://localhost:8899'')
       \<lparr>instructions = produced sample_env (Connection ''http://localhost:8899'') alice PROGRAM_ID\<rparr>
       [alice] = Rejected (Error ''fetch failed'')
   \<and> fst (main failing_env world0) = Rejected (Error ''fetch failed'')
   \<and> stdout (script failing_env) = [Str ''Current balance is 2'', Err (Error ''fetch failed'')]
   \<and> exit_code (script failing_env) = Some 1"
proof -
  let ?c = "Connection ''http://localhost:8899''"
  let ?tx = "\<lparr>instructions = produced sample_env ?c alice PROGRAM_ID\<rparr>"
  have 1: "(?c, ?tx, [alice]) \<in> set (submitted (script failing_env))"
    by (simp add: failing_script)
  have 2: "sendAndConfirmTransaction failing_env ?c ?tx [alice] = Rejected (Error ''fetch failed'')"
    by (simp add: failing_env_fields)
  have "\<exists>c tx ss. (c, tx, ss) \<in> set (submitted (script failing_env))
           \<and> sendAndConfirmTransaction failing_env c tx ss = Rejected (Error ''fetch failed'')"
    using 1 2 by blast
  then have "fst (main failing_env world0) = Rejected (Error ''fetch failed'')
       \<and> stdout (script failing_env)
           = snd (initializeKeypair failing_env (Connection ''http://localhost:8899''))
             @ [Err (Error ''fetch failed'')]
       \<and> exit_code (script failing_env) = Some 1"
    by (intro thrown_error_exits_1) blast
  with 1 2 show ?thesis
    by (simp add: failing_env_fields)
qed

text \<open>
  C7.  When \<^verbatim>\<open>main\<close> returns, the run has submitted one transaction, the submission has
  returned an identifier, and the script prints the explorer line built from that
  identifier, then \<^verbatim>\<open>Finished successfully\<close>, and exits with code 0.
\<close>

theorem success_prints_explorer_url:
  assumes "fst (main env world0) = Fulfilled ()"
  shows "\<exists>c tx ss txid.
           submitted (script env) = [(c, tx, ss)]
         \<and> sendAndConfirmTransaction env c tx ss = Fulfilled txid
         \<and> stdout (script env) =
             snd (initializeKeypair env (Connection ''http://localhost:8899''))
             @ [Str (''Transaction submitted: https://explorer.solana.com/tx/'' @ txid
                      @ ''?cluster=devnet''),
                Str ''Finished successfully'']
         \<and> exit_code (script env) = Some 0"
  using assms by (cases env rule: script_cases) auto

theorem success_prints_explorer_url_witness:
  "fst (main sample_env world0) = Fulfilled ()
   \<and> sendAndConfirmTransaction sample_env (Connection ''http://localhost:8899'')
       \<lparr>instructions = produced sample_env (Connection ''http://localhost:8899'') alice PROGRAM_ID\<rparr>
       [alice] = Fulfilled ''5VERv8NM''
   \<and> stdout (script sample_env) =
       [Str ''Current balance is 2'',
        Str ''Transaction submitted: https://explorer.solana.com/tx/5VERv8NM?cluster=devnet'',
        Str ''Finished successfully'']
   \<and> exit_code (script sample_env) = Some 0"
  using success_prints_explorer_url [OF sample_main]
  by (simp add: sample_main sample_script sample_env_fields)

end
